theory Spec2Isabelle
  imports Main "HOL-Library.Word"
begin

unbundle bit_operations_syntax

section \<open>Inbound message decryption and dispatch (message.go)\<close>

subsection \<open>Go values: bytes, errors, panics\<close>

type_synonym byte = "8 word"
type_synonym bytes = "byte list"

text \<open>
  A Go \<open>error\<close> value. \<open>Errorf\<close> is \<open>fmt.Errorf\<close> without \<open>%w\<close>, \<open>Wrapf\<close> is
  \<open>fmt.Errorf\<close> with \<open>%w\<close> around an inner error. \<open>ErrUntrustedIdentity\<close> is the
  sentinel of the signal library, \<open>EngineError\<close> any other error it returns.
\<close>

datatype error =
    ErrUntrustedIdentity
  | EngineError string
  | Errorf string
  | Wrapf string error

text \<open>\<open>errors.Is\<close>: the target is the error itself or is reached by unwrapping.\<close>

fun errors_Is :: "error \<Rightarrow> error \<Rightarrow> bool" where
  "errors_Is (Wrapf m e) target = (Wrapf m e = target \<or> errors_Is e target)"
| "errors_Is e target = (e = target)"

text \<open>
  A Go call either returns or panics at run time (an index out of range,
  an explicit \<open>panic\<close>).
\<close>

datatype 'a go = Panic | Return 'a

subsection \<open>Padding codec\<close>

definition checkPadding :: bool where
  "checkPadding = True"

text \<open>\<open>bytes.HasSuffix(s, suffix)\<close>.\<close>

definition HasSuffix :: "bytes \<Rightarrow> bytes \<Rightarrow> bool" where
  "HasSuffix s suffix =
     (length suffix \<le> length s \<and> drop (length s - length suffix) s = suffix)"

text \<open>\<open>bytes.Repeat(b, count)\<close> for a one-byte slice \<open>b\<close>.\<close>

definition Repeat :: "byte \<Rightarrow> nat \<Rightarrow> bytes" where
  "Repeat b count = replicate count b"

text \<open>\<open>plaintext[len(plaintext)-1]\<close>: the index \<open>-1\<close> of an empty slice panics.\<close>

definition lastIndex :: "bytes \<Rightarrow> byte go" where
  "lastIndex plaintext = (if plaintext = [] then Panic else Return (last plaintext))"

text \<open>\<open>s[:k]\<close> for a signed \<open>k\<close>: panics unless \<open>0 \<le> k \<le> len(s)\<close>.\<close>

definition sliceTo :: "bytes \<Rightarrow> int \<Rightarrow> bytes go" where
  "sliceTo s k = (if 0 \<le> k \<and> k \<le> int (length s) then Return (take (nat k) s) else Panic)"

definition isValidPadding :: "bytes \<Rightarrow> bool go" where
  "isValidPadding plaintext =
     (case lastIndex plaintext of
        Panic \<Rightarrow> Panic
      | Return lastByte \<Rightarrow>
          (let expectedPadding = Repeat lastByte (unat lastByte)
           in Return (HasSuffix plaintext expectedPadding)))"

definition unpadMessage :: "bytes \<Rightarrow> (error + bytes) go" where
  "unpadMessage plaintext =
     (case (if checkPadding then isValidPadding plaintext else Return True) of
        Panic \<Rightarrow> Panic
      | Return valid \<Rightarrow>
          if checkPadding \<and> \<not> valid
          then Return (Inl (Errorf ''plaintext doesn't have expected padding''))
          else (case lastIndex plaintext of
                  Panic \<Rightarrow> Panic
                | Return n \<Rightarrow>
                    (case sliceTo plaintext (int (length plaintext) - int (unat n)) of
                       Panic \<Rightarrow> Panic
                     | Return p \<Rightarrow> Return (Inr p))))"

text \<open>
  \<open>padMessage\<close>: the byte read from \<open>crypto/rand\<close> is the parameter \<open>rnd\<close>
  (\<open>Inl\<close> when the read fails, on which the code panics).
\<close>

definition padMessage :: "error + byte \<Rightarrow> bytes \<Rightarrow> bytes go" where
  "padMessage rnd plaintext =
     (case rnd of
        Inl err \<Rightarrow> Panic
      | Inr r \<Rightarrow>
          (let pad0 = r AND 0xf;
               pad = (if pad0 = 0 then 0xf else pad0)
           in Return (plaintext @ Repeat pad (unat pad))))"

subsection \<open>Identities, nodes and message metadata\<close>

text \<open>\<open>types.JID\<close>; the zero value is \<open>emptyJID\<close>.\<close>

record JID =
  User :: string
  Agent :: byte
  Device :: byte
  Server :: string
  AD :: bool

definition emptyJID :: JID where
  "emptyJID = \<lparr>User = [], Agent = 0, Device = 0, Server = [], AD = False\<rparr>"

text \<open>
  Modelled from the spec: the server constants of package \<open>types\<close>, which is not part of
  the source file. The spec names the two domains "group" and "broadcast" and gives
  \<open>123@g.us\<close> as a group identity.
\<close>

definition GroupServer :: string where
  "GroupServer = ''g.us''"

definition BroadcastServer :: string where
  "BroadcastServer = ''broadcast''"

text \<open>
  An attribute value is an \<open>interface{}\<close>; the type assertions of the code ask for a
  \<open>types.JID\<close> or a \<open>string\<close>.
\<close>

datatype attr = AttrJID JID | AttrString string | AttrOther

datatype 'n content = ContentNil | ContentBytes bytes | ContentNodes "'n list"

datatype Node = Node (Tag: string) (Attrs: "string \<Rightarrow> attr option") (Content: "Node content")

text \<open>
  Modelled from the spec: \<open>GetChildren\<close> and \<open>GetChildrenByTag\<close> of package \<open>binary\<close>,
  which is not part of the source file: a node exposes "an ordered list of child units
  filterable by tag"; a node whose content is not a list of nodes has no children.
\<close>

definition GetChildren :: "Node \<Rightarrow> Node list" where
  "GetChildren n = (case Content n of ContentNodes children \<Rightarrow> children | _ \<Rightarrow> [])"

definition GetChildrenByTag :: "Node \<Rightarrow> string \<Rightarrow> Node list" where
  "GetChildrenByTag n tag = filter (\<lambda>node. Tag node = tag) (GetChildren n)"

record MessageSource =
  Chat :: JID
  Sender :: JID
  IsFromMe :: bool
  IsGroup :: bool
  BroadcastListOwner :: JID

record DeviceSentMeta =
  DestinationJID :: string
  Phash :: string

record MessageInfo = MessageSource +
  ID :: string
  Timestamp :: int
  PushName :: string
  Category :: string
  DeviceSentMeta :: "DeviceSentMeta option"

definition emptySource :: MessageSource where
  "emptySource = \<lparr>Chat = emptyJID, Sender = emptyJID, IsFromMe = False, IsGroup = False,
     BroadcastListOwner = emptyJID\<rparr>"

subsection \<open>Decoded application messages (waProto)\<close>

datatype SenderKeyDistributionMessage =
  SenderKeyDistributionMessage (groupId: "string option")
    (axolotlSenderKeyDistributionMessage: bytes)

datatype ProtocolMessage =
  ProtocolMessage (historySyncNotification: "bytes option") (appStateSyncKeyShare: "bytes option")

text \<open>A pointer to a protobuf message is an \<open>option\<close>: \<open>None\<close> is \<open>nil\<close>.\<close>

datatype Message =
  ProtoMessage
    (conversation: "string option")
    (senderKeyDistributionMessage: "SenderKeyDistributionMessage option")
    (protocolMessage: "ProtocolMessage option")
    (deviceSentMessage: "DeviceSentMessage option")
    (ephemeralMessage: "FutureProofMessage option")
    (viewOnceMessage: "FutureProofMessage option")
and DeviceSentMessage =
  DeviceSentMessage (destinationJid: "string option") (dsmMessage: "Message option")
    (phash: "string option")
and FutureProofMessage =
  FutureProofMessage (fpmMessage: "Message option")

text \<open>The generated getters are nil-safe: on \<open>nil\<close> they return the zero value.\<close>

definition GetDeviceSentMessage :: "Message option \<Rightarrow> DeviceSentMessage option" where
  "GetDeviceSentMessage m = (case m of None \<Rightarrow> None | Some x \<Rightarrow> deviceSentMessage x)"

definition GetEphemeralMessage :: "Message option \<Rightarrow> FutureProofMessage option" where
  "GetEphemeralMessage m = (case m of None \<Rightarrow> None | Some x \<Rightarrow> ephemeralMessage x)"

definition GetViewOnceMessage :: "Message option \<Rightarrow> FutureProofMessage option" where
  "GetViewOnceMessage m = (case m of None \<Rightarrow> None | Some x \<Rightarrow> viewOnceMessage x)"

definition GetSenderKeyDistributionMessage ::
    "Message option \<Rightarrow> SenderKeyDistributionMessage option" where
  "GetSenderKeyDistributionMessage m =
     (case m of None \<Rightarrow> None | Some x \<Rightarrow> senderKeyDistributionMessage x)"

definition GetProtocolMessage :: "Message option \<Rightarrow> ProtocolMessage option" where
  "GetProtocolMessage m = (case m of None \<Rightarrow> None | Some x \<Rightarrow> protocolMessage x)"

definition DeviceSent_GetMessage :: "DeviceSentMessage option \<Rightarrow> Message option" where
  "DeviceSent_GetMessage d = (case d of None \<Rightarrow> None | Some x \<Rightarrow> dsmMessage x)"

definition GetDestinationJid :: "DeviceSentMessage option \<Rightarrow> string" where
  "GetDestinationJid d =
     (case d of None \<Rightarrow> [] | Some x \<Rightarrow> (case destinationJid x of None \<Rightarrow> [] | Some j \<Rightarrow> j))"

definition GetPhash :: "DeviceSentMessage option \<Rightarrow> string" where
  "GetPhash d = (case d of None \<Rightarrow> [] | Some x \<Rightarrow> (case phash x of None \<Rightarrow> [] | Some h \<Rightarrow> h))"

definition FutureProof_GetMessage :: "FutureProofMessage option \<Rightarrow> Message option" where
  "FutureProof_GetMessage f = (case f of None \<Rightarrow> None | Some x \<Rightarrow> fpmMessage x)"

subsection \<open>Events, detached tasks and the client state\<close>

text \<open>\<open>events.Message\<close>; the field \<open>Message\<close> is \<open>nil\<close> until it is attached.\<close>

record MessageEvt =
  Info :: MessageInfo
  Message :: "Message option"
  IsEphemeral :: bool
  IsViewOnce :: bool
  RawMessage :: Message

datatype event =
    MessageEvent MessageEvt
  | UndecryptableMessage MessageInfo bool
  | IdentityChange JID int bool

text \<open>A call started with \<open>go\<close>: it is handed to the scheduler and not waited for.\<close>

datatype task =
    sendAck Node
  | sendRetryReceipt Node bool
  | sendMessageReceipt MessageInfo
  | handleProtocolMessage MessageInfo Message

datatype level = Debugf | Warnf | Errorf_log

text \<open>
  What the client does to the world outside, in order: a detached task, an event handed
  to \<open>dispatchEvent\<close>, a log line, and the calls into the signal library and the key
  store (decrypt attempts with the signal address of the peer, deletions, the processing
  of a sender key distribution).
\<close>

datatype effect =
    Go task
  | Dispatch event
  | Log level string
  | DecryptPreKeyCall string
  | DecryptCall string
  | GroupDecryptCall string string
  | DeleteIdentity string
  | DeleteSession string
  | ProcessSenderKey string string

text \<open>
  The client: \<open>Store_ID\<close> is the pointer \<open>cli.Store.ID\<close> (\<open>None\<close> is \<open>nil\<close>), \<open>store\<close>
  the state of the signal stores, \<open>trace\<close> the effects so far.
\<close>

record 's Client =
  Store_ID :: "JID option"
  store :: 's
  trace :: "effect list"

text \<open>
  The collaborators outside this file are parameters: the signal library (parsers,
  ciphers, stores) working on a store state \<open>'s\<close> and parsed messages \<open>'m\<close>, the protobuf
  decoder, the clock, and the methods of \<open>types.JID\<close>.
\<close>

record ('s, 'm) env =
  ToNonAD :: "JID \<Rightarrow> JID"
  SignalAddress :: "JID \<Rightarrow> string"
  JID_String :: "JID \<Rightarrow> string"
  NewPreKeySignalMessageFromBytes :: "bytes \<Rightarrow> error + 'm"
  NewSignalMessageFromBytes :: "bytes \<Rightarrow> error + 'm"
  NewSenderKeyMessageFromBytes :: "bytes \<Rightarrow> error + 'm"
  NewSenderKeyDistributionMessageFromBytes :: "bytes \<Rightarrow> error + 'm"
  DecryptMessageReturnKey :: "string \<Rightarrow> 'm \<Rightarrow> 's \<Rightarrow> (error + bytes) \<times> 's"
  Decrypt :: "string \<Rightarrow> 'm \<Rightarrow> 's \<Rightarrow> (error + bytes) \<times> 's"
  GroupDecrypt :: "string \<Rightarrow> string \<Rightarrow> 'm \<Rightarrow> 's \<Rightarrow> (error + bytes) \<times> 's"
  Process :: "string \<Rightarrow> string \<Rightarrow> 'm \<Rightarrow> 's \<Rightarrow> 's"
  Identities_DeleteIdentity :: "string \<Rightarrow> 's \<Rightarrow> error option \<times> 's"
  Sessions_DeleteSession :: "string \<Rightarrow> 's \<Rightarrow> error option \<times> 's"
  Unmarshal :: "bytes \<Rightarrow> error + Message"
  time_Now :: "effect list \<Rightarrow> int"

definition emit :: "effect \<Rightarrow> 's Client \<Rightarrow> 's Client" where
  "emit e cli = cli\<lparr>trace := trace cli @ [e]\<rparr>"

definition dispatchEvent :: "event \<Rightarrow> 's Client \<Rightarrow> 's Client" where
  "dispatchEvent evt cli = emit (Dispatch evt) cli"

text \<open>A call into the signal library: the effect is recorded and the store updated.\<close>

definition engine ::
    "effect \<Rightarrow> ('s \<Rightarrow> 'r \<times> 's) \<Rightarrow> 's Client \<Rightarrow> 'r \<times> 's Client" where
  "engine e f cli = (let (r, s') = f (store cli) in (r, (emit e cli)\<lparr>store := s'\<rparr>))"

definition logf :: "level \<Rightarrow> string \<Rightarrow> 's Client \<Rightarrow> 's Client" where
  "logf lvl msg cli = emit (Log lvl msg) cli"

definition go_run :: "task \<Rightarrow> 's Client \<Rightarrow> 's Client" where
  "go_run t cli = emit (Go t) cli"

subsection \<open>Message source resolver\<close>

text \<open>
  \<open>parseMessageSource\<close> has named results: it returns the source built so far together
  with the error. Reading \<open>cli.Store.ID.User\<close> through a \<open>nil\<close> pointer panics.
\<close>

definition parseMessageSource ::
    "('s, 'm) env \<Rightarrow> 's Client \<Rightarrow> Node \<Rightarrow> (MessageSource \<times> error option) go" where
  "parseMessageSource env cli node =
     (let source = emptySource in
      case Attrs node ''from'' of
        Some (AttrJID from) \<Rightarrow>
          if Server from = GroupServer \<or> Server from = BroadcastServer then
            (let source1 = source\<lparr>IsGroup := True, Chat := from\<rparr> in
             case (case Attrs node ''participant'' of
                     Some (AttrJID sender) \<Rightarrow>
                       (let source2 = source1\<lparr>Sender := sender\<rparr> in
                        case Store_ID cli of
                          None \<Rightarrow> Panic
                        | Some me \<Rightarrow>
                            Return (if User (Sender source2) = User me
                                    then source2\<lparr>IsFromMe := True\<rparr> else source2, None))
                   | _ \<Rightarrow>
                       Return (source1, Some (Errorf
                         ''didn't find valid `participant` attribute in group message''))) of
               Panic \<Rightarrow> Panic
             | Return (source3, err) \<Rightarrow>
                 if Server from = BroadcastServer then
                   (case Attrs node ''recipient'' of
                      Some (AttrJID recipient) \<Rightarrow>
                        Return (source3\<lparr>BroadcastListOwner := recipient\<rparr>, err)
                    | _ \<Rightarrow> Return (source3, err))
                 else Return (source3, err))
          else
            (case Store_ID cli of
               None \<Rightarrow> Panic
             | Some me \<Rightarrow>
                 if User from = User me then
                   (let source1 = source\<lparr>IsFromMe := True, Sender := from\<rparr> in
                    case Attrs node ''recipient'' of
                      Some (AttrJID recipient) \<Rightarrow> Return (source1\<lparr>Chat := recipient\<rparr>, None)
                    | _ \<Rightarrow> Return (source1\<lparr>Chat := ToNonAD env from\<rparr>, None))
                 else Return (source\<lparr>Chat := ToNonAD env from, Sender := from\<rparr>, None))
      | _ \<Rightarrow> Return (source, Some (Errorf ''didn't find valid `from` attribute in message'')))"

subsection \<open>Pairwise and group decryptors\<close>

text \<open>\<open>content, _ := child.Content.([]byte)\<close>: \<open>nil\<close> when the content is not bytes.\<close>

definition contentBytes :: "Node \<Rightarrow> bytes" where
  "contentBytes child = (case Content child of ContentBytes b \<Rightarrow> b | _ \<Rightarrow> [])"

text \<open>
  The block run when the first decrypt of a pre-key message reports an untrusted identity:
  both deletions are attempted, a failed one is only logged, the \<open>IdentityChange\<close> event
  is dispatched, and the same message is decrypted once more.
\<close>

definition clearIdentityAndRetry ::
    "('s, 'm) env \<Rightarrow> JID \<Rightarrow> 'm \<Rightarrow> 's Client \<Rightarrow> (error + bytes) \<times> 's Client" where
  "clearIdentityAndRetry env from preKeyMsg cli =
     (let addr = SignalAddress env from;
          cli1 = logf Warnf
            ''Got %v error while trying to decrypt prekey message from %s, clearing stored identity and retrying''
            cli;
          (err1, cli2) = engine (DeleteIdentity addr) (Identities_DeleteIdentity env addr) cli1;
          cli3 = (case err1 of
                    None \<Rightarrow> cli2
                  | Some _ \<Rightarrow> logf Warnf
                      ''Failed to delete identity of %s from store after decryption error: %v'' cli2);
          (err2, cli4) = engine (DeleteSession addr) (Sessions_DeleteSession env addr) cli3;
          cli5 = (case err2 of
                    None \<Rightarrow> cli4
                  | Some _ \<Rightarrow> logf Warnf
                      ''Failed to delete session with %s from store after decryption error: %v'' cli4);
          cli6 = dispatchEvent (IdentityChange from (time_Now env (trace cli5)) True) cli5
      in engine (DecryptPreKeyCall addr) (DecryptMessageReturnKey env addr preKeyMsg) cli6)"

definition unpadResult ::
    "bytes \<Rightarrow> 's Client \<Rightarrow> ((error + bytes) \<times> 's Client) go" where
  "unpadResult plaintext cli =
     (case unpadMessage plaintext of Panic \<Rightarrow> Panic | Return r \<Rightarrow> Return (r, cli))"

definition decryptDM ::
    "('s, 'm) env \<Rightarrow> Node \<Rightarrow> JID \<Rightarrow> bool \<Rightarrow> 's Client
       \<Rightarrow> ((error + bytes) \<times> 's Client) go" where
  "decryptDM env child from isPreKey cli =
     (let content = contentBytes child;
          addr = SignalAddress env from
      in if isPreKey then
           (case NewPreKeySignalMessageFromBytes env content of
              Inl err \<Rightarrow> Return (Inl (Wrapf ''failed to parse prekey message'' err), cli)
            | Inr preKeyMsg \<Rightarrow>
                (let (res, cli1) =
                       engine (DecryptPreKeyCall addr)
                         (DecryptMessageReturnKey env addr preKeyMsg) cli;
                     (res2, cli2) =
                       (case res of
                          Inl err \<Rightarrow>
                            if errors_Is err ErrUntrustedIdentity
                            then clearIdentityAndRetry env from preKeyMsg cli1
                            else (res, cli1)
                        | Inr _ \<Rightarrow> (res, cli1))
                 in case res2 of
                      Inl err \<Rightarrow>
                        Return (Inl (Wrapf ''failed to decrypt prekey message'' err), cli2)
                    | Inr plaintext \<Rightarrow> unpadResult plaintext cli2))
         else
           (case NewSignalMessageFromBytes env content of
              Inl err \<Rightarrow> Return (Inl (Wrapf ''failed to parse normal message'' err), cli)
            | Inr msg \<Rightarrow>
                (let (res, cli1) = engine (DecryptCall addr) (Decrypt env addr msg) cli
                 in case res of
                      Inl err \<Rightarrow>
                        Return (Inl (Wrapf ''failed to decrypt normal message'' err), cli1)
                    | Inr plaintext \<Rightarrow> unpadResult plaintext cli1)))"

definition decryptGroupMsg ::
    "('s, 'm) env \<Rightarrow> Node \<Rightarrow> JID \<Rightarrow> JID \<Rightarrow> 's Client
       \<Rightarrow> ((error + bytes) \<times> 's Client) go" where
  "decryptGroupMsg env child from chat cli =
     (let content = contentBytes child;
          group = JID_String env chat;
          addr = SignalAddress env from
      in case NewSenderKeyMessageFromBytes env content of
           Inl err \<Rightarrow> Return (Inl (Wrapf ''failed to parse group message'' err), cli)
         | Inr msg \<Rightarrow>
             (let (res, cli1) =
                    engine (GroupDecryptCall group addr) (GroupDecrypt env group addr msg) cli
              in case res of
                   Inl err \<Rightarrow>
                     Return (Inl (Wrapf ''failed to decrypt group message'' err), cli1)
                 | Inr plaintext \<Rightarrow> unpadResult plaintext cli1))"

subsection \<open>Unwrapper and control handler\<close>

definition handleSenderKeyDistributionMessage ::
    "('s, 'm) env \<Rightarrow> JID \<Rightarrow> JID \<Rightarrow> SenderKeyDistributionMessage
       \<Rightarrow> 's Client \<Rightarrow> 's Client" where
  "handleSenderKeyDistributionMessage env chat from rawSKDMsg cli =
     (let group = JID_String env chat;
          addr = SignalAddress env from
      in case NewSenderKeyDistributionMessageFromBytes env
                (axolotlSenderKeyDistributionMessage rawSKDMsg) of
           Inl err \<Rightarrow>
             logf Errorf_log
               ''Failed to parse sender key distribution message from %s for %s: %v'' cli
         | Inr sdkMsg \<Rightarrow>
             (let (u, cli1) =
                    engine (ProcessSenderKey group addr)
                      (\<lambda>st. ((), Process env group addr sdkMsg st)) cli
              in logf Debugf ''Processed sender key distribution message from %s in %s'' cli1))"

text \<open>
  \<open>handleDecryptedMessage\<close>. The event is built from a copy of \<open>info\<close>. In the first
  step the source rebinds \<open>msg\<close> to the inner message and only then reads
  \<open>msg.GetDeviceSentMessage()\<close> for the destination and the phash, so both are read from
  the inner message.
\<close>

definition handleDecryptedMessage ::
    "('s, 'm) env \<Rightarrow> MessageInfo \<Rightarrow> Message \<Rightarrow> 's Client \<Rightarrow> 's Client" where
  "handleDecryptedMessage env info msg0 cli =
     (let evt = \<lparr>Info = info, Message = None, IsEphemeral = False, IsViewOnce = False,
                  RawMessage = msg0\<rparr>;
          (msg1, evt1) =
            (case DeviceSent_GetMessage (GetDeviceSentMessage (Some msg0)) of
               Some inner \<Rightarrow>
                 (inner,
                  evt\<lparr>Info := (Info evt)\<lparr>DeviceSentMeta := Some
                    \<lparr>DestinationJID = GetDestinationJid (GetDeviceSentMessage (Some inner)),
                     Phash = GetPhash (GetDeviceSentMessage (Some inner))\<rparr>\<rparr>\<rparr>)
             | None \<Rightarrow> (msg0, evt));
          cli1 =
            (case GetSenderKeyDistributionMessage (Some msg1) of
               Some skdm \<Rightarrow>
                 if \<not> IsGroup info
                 then logf Warnf
                   ''Got sender key distribution message in non-group chat from'' cli
                 else handleSenderKeyDistributionMessage env (Chat info) (Sender info) skdm cli
             | None \<Rightarrow> cli);
          cli2 =
            (case GetProtocolMessage (Some msg1) of
               Some _ \<Rightarrow> go_run (handleProtocolMessage info msg1) cli1
             | None \<Rightarrow> cli1);
          (msg2, evt2) =
            (case FutureProof_GetMessage (GetEphemeralMessage (Some msg1)) of
               Some inner \<Rightarrow> (inner, evt1\<lparr>IsEphemeral := True\<rparr>)
             | None \<Rightarrow> (msg1, evt1));
          (msg3, evt3) =
            (case FutureProof_GetMessage (GetViewOnceMessage (Some msg2)) of
               Some inner \<Rightarrow> (inner, evt2\<lparr>IsViewOnce := True\<rparr>)
             | None \<Rightarrow> (msg2, evt2));
          evt4 = evt3\<lparr>Message := Some msg3\<rparr>
      in dispatchEvent (MessageEvent evt4) cli2)"

subsection \<open>Decryption dispatcher\<close>

text \<open>
  The routing at the head of the loop body: a child that is not an \<open>enc\<close> element or has
  no string \<open>type\<close> is skipped, \<open>pkmsg\<close> and \<open>msg\<close> go to \<open>decryptDM\<close>, \<open>skmsg\<close> in a
  group goes to \<open>decryptGroupMsg\<close>, any other type is logged and skipped.
\<close>

datatype 'a routing = Skipped | Unhandled string | Routed 'a

definition routeChild ::
    "('s, 'm) env \<Rightarrow> MessageInfo \<Rightarrow> Node \<Rightarrow> 's Client
       \<Rightarrow> ((error + bytes) \<times> 's Client) go routing" where
  "routeChild env info child cli =
     (if Tag child \<noteq> ''enc'' then Skipped
      else case Attrs child ''type'' of
             Some (AttrString encType) \<Rightarrow>
               if encType = ''pkmsg'' \<or> encType = ''msg''
               then Routed (decryptDM env child (Sender info) (encType = ''pkmsg'') cli)
               else if IsGroup info \<and> encType = ''skmsg''
               then Routed (decryptGroupMsg env child (Sender info) (Chat info) cli)
               else Unhandled encType
           | _ \<Rightarrow> Skipped)"

text \<open>
  One iteration of the loop over the children. The result \<open>None\<close> is the \<open>return\<close> out
  of \<open>decryptMessages\<close>; \<open>Some h\<close> goes on to the next child with \<open>handled = h\<close>.
\<close>

definition decryptChild ::
    "('s, 'm) env \<Rightarrow> MessageInfo \<Rightarrow> Node \<Rightarrow> Node \<Rightarrow> bool \<Rightarrow> 's Client
       \<Rightarrow> (bool option \<times> 's Client) go" where
  "decryptChild env info node child handled cli =
     (case routeChild env info child cli of
        Skipped \<Rightarrow> Return (Some handled, cli)
      | Unhandled encType \<Rightarrow>
          Return (Some handled,
                  logf Warnf ''Unhandled encrypted message (type %s) from %s'' cli)
      | Routed Panic \<Rightarrow> Panic
      | Routed (Return (Inl err, cli1)) \<Rightarrow>
          Return (None,
                  dispatchEvent (UndecryptableMessage info False)
                    (go_run (sendRetryReceipt node False)
                      (logf Warnf ''Error decrypting message from %s: %v'' cli1)))
      | Routed (Return (Inr decrypted, cli1)) \<Rightarrow>
          (case Unmarshal env decrypted of
             Inl err \<Rightarrow>
               Return (Some handled,
                       logf Warnf ''Error unmarshaling decrypted message from %s: %v'' cli1)
           | Inr msg \<Rightarrow> Return (Some True, handleDecryptedMessage env info msg cli1)))"

fun decryptChildren ::
    "('s, 'm) env \<Rightarrow> MessageInfo \<Rightarrow> Node \<Rightarrow> Node list \<Rightarrow> bool \<Rightarrow> 's Client
       \<Rightarrow> (bool option \<times> 's Client) go" where
  "decryptChildren env info node [] handled cli = Return (Some handled, cli)"
| "decryptChildren env info node (child # children) handled cli =
     (case decryptChild env info node child handled cli of
        Panic \<Rightarrow> Panic
      | Return (None, cli1) \<Rightarrow> Return (None, cli1)
      | Return (Some handled1, cli1) \<Rightarrow> decryptChildren env info node children handled1 cli1)"

definition decryptMessages ::
    "('s, 'm) env \<Rightarrow> MessageInfo \<Rightarrow> Node \<Rightarrow> 's Client \<Rightarrow> 's Client go" where
  "decryptMessages env info node cli =
     (let cli1 = go_run (sendAck node) cli in
      if length (GetChildrenByTag node ''unavailable'') = length (GetChildren node) then
        Return (dispatchEvent (UndecryptableMessage info True)
                 (go_run (sendRetryReceipt node True)
                   (logf Warnf ''Unavailable message %s from %s'' cli1)))
      else
        (let children = GetChildren node;
             cli2 = logf Debugf ''Decrypting %d messages from %s'' cli1
         in case decryptChildren env info node children False cli2 of
              Panic \<Rightarrow> Panic
            | Return (None, cli3) \<Rightarrow> Return cli3
            | Return (Some handled, cli3) \<Rightarrow>
                Return (if handled then go_run (sendMessageReceipt info) cli3 else cli3)))"

subsection \<open>Reading a trace\<close>

text \<open>The effects a call added: the trace after it without the trace before it.\<close>

definition added :: "'s Client \<Rightarrow> 's Client \<Rightarrow> effect list" where
  "added cli cli' = drop (length (trace cli)) (trace cli')"

fun dispatched :: "effect list \<Rightarrow> event list" where
  "dispatched [] = []"
| "dispatched (Dispatch evt # es) = evt # dispatched es"
| "dispatched (e # es) = dispatched es"

fun started :: "effect list \<Rightarrow> task list" where
  "started [] = []"
| "started (Go t # es) = t # started es"
| "started (e # es) = started es"

fun isDecryptCall :: "effect \<Rightarrow> bool" where
  "isDecryptCall (DecryptPreKeyCall a) = True"
| "isDecryptCall (DecryptCall a) = True"
| "isDecryptCall (GroupDecryptCall g a) = True"
| "isDecryptCall e = False"

fun isStoreCall :: "effect \<Rightarrow> bool" where
  "isStoreCall (DeleteIdentity a) = True"
| "isStoreCall (DeleteSession a) = True"
| "isStoreCall (ProcessSenderKey g a) = True"
| "isStoreCall e = isDecryptCall e"

fun isUndecryptable :: "event \<Rightarrow> bool" where
  "isUndecryptable (UndecryptableMessage i u) = True"
| "isUndecryptable e = False"

fun isMessageEvent :: "event \<Rightarrow> bool" where
  "isMessageEvent (MessageEvent m) = True"
| "isMessageEvent e = False"

fun isIdentityChange :: "event \<Rightarrow> bool" where
  "isIdentityChange (IdentityChange j t i) = True"
| "isIdentityChange e = False"

fun isRetryReceipt :: "task \<Rightarrow> bool" where
  "isRetryReceipt (sendRetryReceipt n u) = True"
| "isRetryReceipt t = False"

fun isMessageReceipt :: "task \<Rightarrow> bool" where
  "isMessageReceipt (sendMessageReceipt i) = True"
| "isMessageReceipt t = False"

subsection \<open>Sample collaborators and inputs\<close>

text \<open>
  A concrete signal library for evaluating the definitions: the store state is one flag,
  \<open>True\<close> while the stored identity of the peer is stale; a pre-key decrypt fails with
  the untrusted-identity error while it is, deleting the identity clears it, and the
  plaintext of a message is its ciphertext.
\<close>

definition sampleJID :: "string \<Rightarrow> string \<Rightarrow> JID" where
  "sampleJID u s = \<lparr>User = u, Agent = 0, Device = 0, Server = s, AD = False\<rparr>"

definition sampleEnv :: "(bool, bytes) env" where
  "sampleEnv = \<lparr>
     ToNonAD = (\<lambda>j. j\<lparr>Agent := 0, Device := 0, AD := False\<rparr>),
     SignalAddress = (\<lambda>j. User j),
     JID_String = (\<lambda>j. User j @ ''@'' @ Server j),
     NewPreKeySignalMessageFromBytes =
       (\<lambda>b. if b = [] then Inl (EngineError ''empty'') else Inr b),
     NewSignalMessageFromBytes =
       (\<lambda>b. if b = [] then Inl (EngineError ''empty'') else Inr b),
     NewSenderKeyMessageFromBytes =
       (\<lambda>b. if b = [] then Inl (EngineError ''empty'') else Inr b),
     NewSenderKeyDistributionMessageFromBytes =
       (\<lambda>b. if b = [] then Inl (EngineError ''empty'') else Inr b),
     DecryptMessageReturnKey =
       (\<lambda>addr m stale. if stale then (Inl ErrUntrustedIdentity, stale) else (Inr m, stale)),
     Decrypt = (\<lambda>addr m stale. (Inr m, stale)),
     GroupDecrypt = (\<lambda>group addr m stale. (Inr m, stale)),
     Process = (\<lambda>group addr m stale. stale),
     Identities_DeleteIdentity = (\<lambda>addr stale. (None, False)),
     Sessions_DeleteSession = (\<lambda>addr stale. (None, stale)),
     Unmarshal =
       (\<lambda>b. if length b < 2 then Inl (EngineError ''short'')
            else Inr (ProtoMessage (Some ''hi'') None None None None None)),
     time_Now = (\<lambda>tr. int (length tr))\<rparr>"

definition sampleClient :: "bool \<Rightarrow> bool Client" where
  "sampleClient stale =
     \<lparr>Store_ID = Some (sampleJID ''456'' ''s.whatsapp.net''), store = stale, trace = []\<rparr>"

definition sampleInfo :: MessageInfo where
  "sampleInfo = \<lparr>Chat = sampleJID ''123'' ''s.whatsapp.net'',
     Sender = sampleJID ''123'' ''s.whatsapp.net'', IsFromMe = False, IsGroup = False,
     BroadcastListOwner = emptyJID, ID = ''A1'', Timestamp = 1, PushName = [], Category = [],
     DeviceSentMeta = None\<rparr>"

definition sampleGroupNode :: Node where
  "sampleGroupNode = Node ''message''
     [''from'' \<mapsto> AttrJID (sampleJID ''123'' ''g.us''),
      ''participant'' \<mapsto> AttrJID (sampleJID ''456'' ''s.whatsapp.net'')] ContentNil"

definition sampleUnavailableNode :: Node where
  "sampleUnavailableNode = Node ''message'' Map.empty
     (ContentNodes [Node ''unavailable'' Map.empty ContentNil,
                    Node ''unavailable'' Map.empty ContentNil])"

definition sampleEmptyNode :: Node where
  "sampleEmptyNode = Node ''message'' Map.empty ContentNil"


definition sampleGoodChild :: Node where
  "sampleGoodChild =
     Node ''enc'' [''type'' \<mapsto> AttrString ''msg''] (ContentBytes [0x41, 0x42, 0x01])"

definition sampleBadChild :: Node where
  "sampleBadChild = Node ''enc'' [''type'' \<mapsto> AttrString ''msg''] ContentNil"

definition samplePartialNode :: Node where
  "samplePartialNode = Node ''message'' Map.empty
     (ContentNodes [sampleGoodChild, sampleBadChild, sampleGoodChild])"

definition sampleCleanNode :: Node where
  "sampleCleanNode = Node ''message'' Map.empty (ContentNodes [sampleGoodChild])"

section \<open>Properties of the padding codec\<close>

lemma pad_byte_range:
  fixes r :: byte
  defines "p \<equiv> (if r AND 0xf = 0 then 0xf else r AND 0xf)"
  shows "1 \<le> unat p \<and> unat p \<le> 15"
proof -
  have le: "unat (r AND 0xf) \<le> unat (0xf :: byte)"
    by (rule word_and_le1 [THEN word_le_nat_alt [THEN iffD1]])
  have nz: "r AND 0xf \<noteq> 0 \<Longrightarrow> 1 \<le> unat (r AND 0xf)"
    by (simp add: unat_gt_0 Suc_leI)
  show ?thesis using le nz by (auto simp: p_def)
qed

lemma HasSuffix_append_replicate:
  "HasSuffix (x @ replicate n b) (replicate n b)"
  by (simp add: HasSuffix_def)

lemma unpad_append_replicate:
  assumes "1 \<le> unat b"
  shows "unpadMessage (x @ Repeat b (unat b)) = Return (Inr x)"
proof -
  obtain k where k: "unat b = Suc k"
    using assms by (cases "unat b") auto
  have ne: "x @ replicate (unat b) b \<noteq> []" by (simp add: k)
  have lst: "last (x @ replicate (unat b) b) = b" by (simp add: k)
  show ?thesis
    using ne lst HasSuffix_append_replicate [of x "unat b" b]
    by (simp add: unpadMessage_def isValidPadding_def lastIndex_def sliceTo_def
        Repeat_def checkPadding_def Let_def)
qed

text \<open>
  C3: for every byte sequence \<open>x\<close> (so for every non-empty one) and every byte the random
  source delivers, \<open>padMessage\<close> returns \<open>x\<close> followed by \<open>n\<close> copies of the byte \<open>n\<close>
  for some \<open>n\<close> between 1 and 15, and \<open>unpadMessage\<close> of that result returns \<open>x\<close>.
\<close>

theorem C3_unpad_pad_roundtrip:
  "\<exists>n padded. 1 \<le> n \<and> n \<le> 15
      \<and> padMessage (Inr r) x = Return padded
      \<and> padded = x @ replicate n (of_nat n)
      \<and> unpadMessage padded = Return (Inr x)"
proof -
  define p :: byte where "p = (if r AND 0xf = 0 then 0xf else r AND 0xf)"
  have rng: "1 \<le> unat p \<and> unat p \<le> 15"
    unfolding p_def by (rule pad_byte_range)
  have pm: "padMessage (Inr r) x = Return (x @ Repeat p (unat p))"
    by (simp add: padMessage_def p_def Let_def)
  have rep: "x @ Repeat p (unat p) = x @ replicate (unat p) (of_nat (unat p))"
    by (simp add: Repeat_def)
  have un: "unpadMessage (x @ Repeat p (unat p)) = Return (Inr x)"
    using rng by (intro unpad_append_replicate) simp
  show ?thesis
    using rng pm rep un by (intro exI [of _ "unat p"] exI [of _ "x @ Repeat p (unat p)"]) simp
qed

lemma HasSuffix_replicate_iff:
  "HasSuffix s (replicate n b) \<longleftrightarrow>
     n \<le> length s \<and> (\<forall>i<n. s ! (length s - Suc i) = b)"
proof (cases "n \<le> length s")
  case False
  then show ?thesis by (simp add: HasSuffix_def)
next
  case True
  have "drop (length s - n) s = replicate n b \<longleftrightarrow> (\<forall>j<n. s ! (length s - n + j) = b)"
    using True by (auto simp: list_eq_iff_nth_eq)
  also have "\<dots> \<longleftrightarrow> (\<forall>i<n. s ! (length s - Suc i) = b)"
  proof (intro iffI allI impI)
    fix i assume h: "\<forall>j<n. s ! (length s - n + j) = b" and i: "i < n"
    have "n - Suc i < n" using i by simp
    with h have "s ! (length s - n + (n - Suc i)) = b" by blast
    moreover have "length s - n + (n - Suc i) = length s - Suc i"
      using True i by simp
    ultimately show "s ! (length s - Suc i) = b" by simp
  next
    fix j assume h: "\<forall>i<n. s ! (length s - Suc i) = b" and j: "j < n"
    have "n - Suc j < n" using j by simp
    with h have "s ! (length s - Suc (n - Suc j)) = b" by blast
    moreover have "length s - Suc (n - Suc j) = length s - n + j"
      using True j by simp
    ultimately show "s ! (length s - n + j) = b" by simp
  qed
  finally show ?thesis using True by (simp add: HasSuffix_def)
qed

lemma unpadMessage_nonempty:
  assumes "b \<noteq> []"
  shows "unpadMessage b =
           (if HasSuffix b (replicate (unat (last b)) (last b))
            then Return (Inr (take (length b - unat (last b)) b))
            else Return (Inl (Errorf ''plaintext doesn't have expected padding'')))"
proof (cases "HasSuffix b (replicate (unat (last b)) (last b))")
  case True
  then have "unat (last b) \<le> length b" by (simp add: HasSuffix_def)
  then have "nat (int (length b) - int (unat (last b))) = length b - unat (last b)"
    by (simp only: nat_minus_as_int)
  then have "nat (int (length b) - uint (last b)) = length b - unat (last b)"
    by simp
  moreover have "uint (last b) \<le> int (length b)"
    using \<open>unat (last b) \<le> length b\<close> by (metis of_nat_le_iff of_nat_unat)
  moreover note True assms
  ultimately show ?thesis
    by (simp add: unpadMessage_def isValidPadding_def lastIndex_def sliceTo_def
        Repeat_def checkPadding_def Let_def)
next
  case False
  with assms show ?thesis
    by (simp add: unpadMessage_def isValidPadding_def lastIndex_def
        Repeat_def checkPadding_def Let_def)
qed

text \<open>
  C4, as the claim states it, fails: a buffer whose last byte is 0 is accepted and returned
  whole, because the expected padding is then the empty sequence, which is a suffix of
  every buffer.
\<close>

theorem C4_zero_padding_accepted:
  "unat (last [0x41, 0x00 :: byte]) = 0
   \<and> unpadMessage [0x41, 0x00] = Return (Inr [0x41, 0x00])"
  by (simp add: unpadMessage_def isValidPadding_def lastIndex_def sliceTo_def
      Repeat_def HasSuffix_def checkPadding_def Let_def)

text \<open>
  C4, amended: for every non-empty buffer with last byte \<open>n\<close> (any value from 0 to 255),
  \<open>unpadMessage\<close> succeeds exactly when the buffer has at least \<open>n\<close> bytes and its final
  \<open>n\<close> bytes all equal \<open>n\<close> (which holds trivially for \<open>n = 0\<close>), and it then returns the
  buffer without its final \<open>n\<close> bytes; in every other case it fails with the
  invalid-padding error. The check is always applied: \<open>checkPadding\<close> is the constant
  \<open>True\<close>.
\<close>

theorem C4_unpad_succeeds_iff:
  assumes "b \<noteq> []"
  defines "n \<equiv> unat (last b)"
  defines "tailOk \<equiv> n \<le> length b \<and> (\<forall>i<n. b ! (length b - Suc i) = last b)"
  shows "checkPadding
    \<and> n \<le> 255
    \<and> (tailOk \<longrightarrow> unpadMessage b = Return (Inr (take (length b - n) b)))
    \<and> (\<not> tailOk \<longrightarrow>
          unpadMessage b = Return (Inl (Errorf ''plaintext doesn't have expected padding'')))
    \<and> ((\<exists>p. unpadMessage b = Return (Inr p)) \<longleftrightarrow> tailOk)"
proof -
  have suf: "HasSuffix b (replicate n (last b)) \<longleftrightarrow> tailOk"
    unfolding tailOk_def by (rule HasSuffix_replicate_iff)
  have eq: "unpadMessage b =
      (if tailOk then Return (Inr (take (length b - n) b))
       else Return (Inl (Errorf ''plaintext doesn't have expected padding'')))"
    using unpadMessage_nonempty [OF assms(1)] suf by (simp add: n_def)
  have bound: "n \<le> 255"
    using unsigned_less [of "last b", where 'a = nat] by (simp add: n_def)
  show ?thesis using eq bound by (simp add: checkPadding_def)
qed

theorem C4_unpad_succeeds_iff_witness:
  "[0x41, 0x02, 0x02 :: byte] \<noteq> []
   \<and> unpadMessage [0x41, 0x02, 0x02] = Return (Inr [0x41])
   \<and> unpadMessage [0x41, 0x03, 0x02] =
       Return (Inl (Errorf ''plaintext doesn't have expected padding''))"
proof -
  have a: "[0x41, 0x02, 0x02 :: byte] \<noteq> []" by simp
  have c: "[0x41, 0x03, 0x02 :: byte] \<noteq> []" by simp
  have t1: "\<forall>i<2. [0x41, 0x02, 0x02 :: byte] ! (3 - Suc i) = 2"
    by (simp add: less_Suc_eq numeral_2_eq_2 numeral_3_eq_3)
  have t2: "\<not> (\<forall>i<2. [0x41, 0x03, 0x02 :: byte] ! (3 - Suc i) = 2)"
    by (auto simp: numeral_2_eq_2 numeral_3_eq_3 intro!: exI [of _ 1])
  show ?thesis
    using C4_unpad_succeeds_iff [OF a] C4_unpad_succeeds_iff [OF c] t1 t2
    by simp
qed

text \<open>
  C8 fails on the code: on the empty buffer \<open>isValidPadding\<close> reads
  \<open>plaintext[len(plaintext)-1]\<close>, which is index \<open>-1\<close>, and the call panics instead of
  returning a plaintext or an error.
\<close>

theorem C8_unpad_empty_panics:
  "isValidPadding [] = Panic \<and> unpadMessage [] = Panic"
  by (simp add: unpadMessage_def isValidPadding_def lastIndex_def checkPadding_def)

section \<open>Properties of the source resolver\<close>

text \<open>
  C6: for a node whose \<open>from\<close> is an identity of the group or broadcast domain, the
  resolved source has \<open>IsGroup\<close> set and \<open>Chat\<close> equal to \<open>from\<close>. Without a
  \<open>participant\<close> identity the resolution fails with the malformed-source error; with one
  (and a local account, \<open>cli.Store.ID\<close>) it succeeds, \<open>Sender\<close> is the participant and
  \<open>IsFromMe\<close> holds exactly when the users of the participant and of the local account
  are equal.
\<close>

theorem C6_group_source:
  assumes "Attrs node ''from'' = Some (AttrJID from)"
      and "Server from = GroupServer \<or> Server from = BroadcastServer"
  shows "((\<forall>p. Attrs node ''participant'' \<noteq> Some (AttrJID p)) \<longrightarrow>
            (\<exists>src. parseMessageSource env cli node =
                Return (src, Some (Errorf
                  ''didn't find valid `participant` attribute in group message''))
              \<and> IsGroup src \<and> Chat src = from))
       \<and> (\<forall>p me. Attrs node ''participant'' = Some (AttrJID p) \<longrightarrow> Store_ID cli = Some me \<longrightarrow>
            (\<exists>src. parseMessageSource env cli node = Return (src, None)
              \<and> IsGroup src \<and> Chat src = from \<and> Sender src = p
              \<and> (IsFromMe src \<longleftrightarrow> User p = User me)))"
  using assms
  by (auto simp: parseMessageSource_def emptySource_def Let_def
      split: option.splits attr.splits)

theorem C6_group_source_witness:
  "Attrs sampleGroupNode ''from'' = Some (AttrJID (sampleJID ''123'' ''g.us''))
   \<and> (Server (sampleJID ''123'' ''g.us'') = GroupServer
        \<or> Server (sampleJID ''123'' ''g.us'') = BroadcastServer)
   \<and> Attrs sampleGroupNode ''participant'' = Some (AttrJID (sampleJID ''456'' ''s.whatsapp.net''))
   \<and> Store_ID (sampleClient False) = Some (sampleJID ''456'' ''s.whatsapp.net'')
   \<and> (\<exists>src. parseMessageSource sampleEnv (sampleClient False) sampleGroupNode = Return (src, None)
         \<and> IsGroup src \<and> Chat src = sampleJID ''123'' ''g.us''
         \<and> Sender src = sampleJID ''456'' ''s.whatsapp.net'' \<and> IsFromMe src)"
proof -
  have h1: "Attrs sampleGroupNode ''from'' = Some (AttrJID (sampleJID ''123'' ''g.us''))"
    by (simp add: sampleGroupNode_def)
  have h2: "Server (sampleJID ''123'' ''g.us'') = GroupServer
        \<or> Server (sampleJID ''123'' ''g.us'') = BroadcastServer"
    by (simp add: sampleJID_def GroupServer_def)
  have h3: "Attrs sampleGroupNode ''participant'' =
      Some (AttrJID (sampleJID ''456'' ''s.whatsapp.net''))"
    by (simp add: sampleGroupNode_def)
  have h4: "Store_ID (sampleClient False) = Some (sampleJID ''456'' ''s.whatsapp.net'')"
    by (simp add: sampleClient_def)
  have h5: "User (sampleJID ''456'' ''s.whatsapp.net'') = User (sampleJID ''456'' ''s.whatsapp.net'')"
    by simp
  from C6_group_source [OF h1 h2, of sampleEnv "sampleClient False"] h3 h4
  have "\<exists>src. parseMessageSource sampleEnv (sampleClient False) sampleGroupNode = Return (src, None)
         \<and> IsGroup src \<and> Chat src = sampleJID ''123'' ''g.us''
         \<and> Sender src = sampleJID ''456'' ''s.whatsapp.net''
         \<and> (IsFromMe src \<longleftrightarrow> User (sampleJID ''456'' ''s.whatsapp.net'')
               = User (sampleJID ''456'' ''s.whatsapp.net''))"
    by blast
  with h1 h2 h3 h4 show ?thesis by simp
qed

section \<open>Properties of the unwrapper\<close>

lemmas getter_defs = GetDeviceSentMessage_def DeviceSent_GetMessage_def GetDestinationJid_def
  GetPhash_def GetSenderKeyDistributionMessage_def GetProtocolMessage_def
  GetEphemeralMessage_def GetViewOnceMessage_def FutureProof_GetMessage_def

text \<open>
  C5 fails on the code: for a device-sent wrapper (destination \<open>123@s.whatsapp.net\<close>, phash
  \<open>abc\<close>) around an ephemeral wrapper around a plain body, the one event dispatched has
  \<open>IsEphemeral\<close> set and the innermost body as its message, but its \<open>DeviceSentMeta\<close>
  holds an empty destination and an empty phash, not those of the wrapper: the source
  rebinds \<open>msg\<close> to the inner message before it reads \<open>msg.GetDeviceSentMessage()\<close>.
\<close>

theorem C5_device_sent_meta_lost:
  "handleDecryptedMessage env info
     (ProtoMessage None None None
        (Some (DeviceSentMessage (Some ''123@s.whatsapp.net'')
           (Some (ProtoMessage None None None None
              (Some (FutureProofMessage
                 (Some (ProtoMessage (Some ''hi'') None None None None None)))) None))
           (Some ''abc''))) None None) cli =
     dispatchEvent (MessageEvent
       \<lparr>Info = info\<lparr>DeviceSentMeta := Some \<lparr>DestinationJID = [], Phash = []\<rparr>\<rparr>,
        Message = Some (ProtoMessage (Some ''hi'') None None None None None),
        IsEphemeral = True, IsViewOnce = False,
        RawMessage = ProtoMessage None None None
        (Some (DeviceSentMessage (Some ''123@s.whatsapp.net'')
           (Some (ProtoMessage None None None None
              (Some (FutureProofMessage
                 (Some (ProtoMessage (Some ''hi'') None None None None None)))) None))
           (Some ''abc''))) None None\<rparr>) cli"
  unfolding handleDecryptedMessage_def getter_defs
  by (simp add: Let_def)

section \<open>Properties of the dispatcher\<close>

lemma trace_emit: "trace (emit e cli) = trace cli @ [e]"
  and store_emit: "store (emit e cli) = store cli"
  and Store_ID_emit: "Store_ID (emit e cli) = Store_ID cli"
  by (simp_all add: emit_def)

lemma decryptMessages_unavailable:
  assumes "length (GetChildrenByTag node ''unavailable'') = length (GetChildren node)"
  shows "decryptMessages env info node cli =
     Return (cli\<lparr>trace := trace cli @
       [Go (sendAck node), Log Warnf ''Unavailable message %s from %s'',
        Go (sendRetryReceipt node True), Dispatch (UndecryptableMessage info True)]\<rparr>)"
  using assms
  by (simp add: decryptMessages_def Let_def dispatchEvent_def go_run_def logf_def emit_def)

lemma length_filter_eq_iff:
  "length (filter P xs) = length xs \<longleftrightarrow> (\<forall>x \<in> set xs. P x)"
proof (induction xs)
  case Nil
  show ?case by simp
next
  case (Cons a xs)
  have "length (filter P xs) \<noteq> Suc (length xs)"
    by (metis length_filter_le Suc_n_not_le_n)
  then show ?case using Cons by auto
qed

lemma all_unavailable_iff:
  "length (GetChildrenByTag node ''unavailable'') = length (GetChildren node)
     \<longleftrightarrow> (\<forall>c \<in> set (GetChildren node). Tag c = ''unavailable'')"
  unfolding GetChildrenByTag_def by (rule length_filter_eq_iff)

text \<open>
  C7: when every child of the node is tagged \<open>unavailable\<close>, \<open>decryptMessages\<close> returns
  after dispatching exactly one event, \<open>UndecryptableMessage\<close> with \<open>IsUnavailable = True\<close>,
  and starting exactly one retry receipt, with the unavailable flag set (next to the
  delivery acknowledgement started at entry); it makes no call into the signal library or
  the key store, so no decryption is attempted and no child is processed.
\<close>

theorem C7_all_unavailable:
  assumes "\<forall>c \<in> set (GetChildren node). Tag c = ''unavailable''"
  shows "\<exists>cli'. decryptMessages env info node cli = Return cli'
      \<and> dispatched (added cli cli') = [UndecryptableMessage info True]
      \<and> started (added cli cli') = [sendAck node, sendRetryReceipt node True]
      \<and> filter isStoreCall (added cli cli') = []
      \<and> store cli' = store cli"
proof -
  have "length (GetChildrenByTag node ''unavailable'') = length (GetChildren node)"
    using assms by (simp add: all_unavailable_iff)
  from decryptMessages_unavailable [OF this, of env info cli]
  show ?thesis by (simp add: added_def)
qed

theorem C7_all_unavailable_witness:
  "list_all (\<lambda>c. Tag c = ''unavailable'') (GetChildren sampleUnavailableNode)
   \<and> (\<exists>cli'. decryptMessages sampleEnv sampleInfo sampleUnavailableNode (sampleClient False)
           = Return cli'
        \<and> dispatched (added (sampleClient False) cli') = [UndecryptableMessage sampleInfo True]
        \<and> started (added (sampleClient False) cli')
             = [sendAck sampleUnavailableNode, sendRetryReceipt sampleUnavailableNode True])"
proof -
  have h: "\<forall>c \<in> set (GetChildren sampleUnavailableNode). Tag c = ''unavailable''"
    by (simp add: sampleUnavailableNode_def GetChildren_def)
  have h': "list_all (\<lambda>c. Tag c = ''unavailable'') (GetChildren sampleUnavailableNode)"
    using h by (simp add: list_all_iff)
  from C7_all_unavailable [OF h, of sampleEnv sampleInfo "sampleClient False"] h'
  show ?thesis by blast
qed

text \<open>
  C9: a node without children passes the all-unavailable test (0 = 0), so
  \<open>decryptMessages\<close> dispatches \<open>UndecryptableMessage\<close> with \<open>IsUnavailable = True\<close>, starts
  a retry receipt with the unavailable flag set, and attempts no decryption.
\<close>

theorem C9_no_children:
  assumes "GetChildren node = []"
  shows "\<exists>cli'. decryptMessages env info node cli = Return cli'
      \<and> dispatched (added cli cli') = [UndecryptableMessage info True]
      \<and> started (added cli cli') = [sendAck node, sendRetryReceipt node True]
      \<and> filter isDecryptCall (added cli cli') = []
      \<and> store cli' = store cli"
proof -
  have "length (GetChildrenByTag node ''unavailable'') = length (GetChildren node)"
    using assms by (simp add: GetChildrenByTag_def)
  from decryptMessages_unavailable [OF this, of env info cli]
  show ?thesis by (simp add: added_def)
qed

theorem C9_no_children_witness:
  "GetChildren sampleEmptyNode = []
   \<and> (\<exists>cli'. decryptMessages sampleEnv sampleInfo sampleEmptyNode (sampleClient False)
           = Return cli'
        \<and> dispatched (added (sampleClient False) cli') = [UndecryptableMessage sampleInfo True]
        \<and> started (added (sampleClient False) cli')
             = [sendAck sampleEmptyNode, sendRetryReceipt sampleEmptyNode True])"
proof -
  have h: "GetChildren sampleEmptyNode = []"
    by (simp add: sampleEmptyNode_def GetChildren_def)
  from C9_no_children [OF h, of sampleEnv sampleInfo "sampleClient False"] h
  show ?thesis by blast
qed

section \<open>Properties of the pairwise decryptor\<close>

lemma engine_eq:
  "f (store cli) = (r, s') \<Longrightarrow>
     engine e f cli = (r, cli\<lparr>trace := trace cli @ [e], store := s'\<rparr>)"
  by (simp add: engine_def emit_def)

lemma clearIdentityAndRetry_eq:
  assumes d1: "Identities_DeleteIdentity env (SignalAddress env from) (store cli) = (d1, s2)"
      and d2: "Sessions_DeleteSession env (SignalAddress env from) s2 = (d2, s3)"
      and r2: "DecryptMessageReturnKey env (SignalAddress env from) m s3 = (r2, s4)"
  defines "pre \<equiv> trace cli @
      [Log Warnf ''Got %v error while trying to decrypt prekey message from %s, clearing stored identity and retrying'',
       DeleteIdentity (SignalAddress env from)]
      @ (case d1 of None \<Rightarrow> [] | Some _ \<Rightarrow>
           [Log Warnf ''Failed to delete identity of %s from store after decryption error: %v''])
      @ [DeleteSession (SignalAddress env from)]
      @ (case d2 of None \<Rightarrow> [] | Some _ \<Rightarrow>
           [Log Warnf ''Failed to delete session with %s from store after decryption error: %v''])"
  shows "clearIdentityAndRetry env from m cli =
     (r2, cli\<lparr>trace := pre @ [Dispatch (IdentityChange from (time_Now env pre) True),
                               DecryptPreKeyCall (SignalAddress env from)],
              store := s4\<rparr>)"
  using d1 d2 r2 unfolding pre_def clearIdentityAndRetry_def
  by (cases d1; cases d2)
     (simp_all add: Let_def engine_def emit_def logf_def dispatchEvent_def)







section \<open>Traces of the decryptors and of the loop over the children\<close>

lemma dispatched_append [simp]: "dispatched (xs @ ys) = dispatched xs @ dispatched ys"
  by (induction xs rule: dispatched.induct) simp_all

lemma started_append [simp]: "started (xs @ ys) = started xs @ started ys"
  by (induction xs rule: started.induct) simp_all

lemma clearIdentityAndRetry_trace:
  assumes "clearIdentityAndRetry env peer m cli = (r, cli')"
  shows "\<exists>ys. trace cli' = trace cli @ ys \<and> started ys = []
      \<and> filter isUndecryptable (dispatched ys) = []
      \<and> filter isMessageEvent (dispatched ys) = []"
proof -
  obtain d1 s2 where d1: "Identities_DeleteIdentity env (SignalAddress env peer) (store cli) = (d1, s2)"
    by (cases "Identities_DeleteIdentity env (SignalAddress env peer) (store cli)")
  obtain d2 s3 where d2: "Sessions_DeleteSession env (SignalAddress env peer) s2 = (d2, s3)"
    by (cases "Sessions_DeleteSession env (SignalAddress env peer) s2")
  obtain r2 s4 where r2: "DecryptMessageReturnKey env (SignalAddress env peer) m s3 = (r2, s4)"
    by (cases "DecryptMessageReturnKey env (SignalAddress env peer) m s3")
  from clearIdentityAndRetry_eq [OF d1 d2 r2] assms show ?thesis
    by (cases d1; cases d2) auto
qed

lemma unpadResult_Return: "unpadResult p cli = Return (r, cli') \<Longrightarrow> cli' = cli"
  by (simp add: unpadResult_def split: go.splits)

lemma decryptDM_trace:
  assumes "decryptDM env child peer pk cli = Return (r, cli')"
  shows "\<exists>ys. trace cli' = trace cli @ ys \<and> started ys = []
      \<and> filter isUndecryptable (dispatched ys) = []
      \<and> filter isMessageEvent (dispatched ys) = []"
proof (cases pk)
  case False
  with assms show ?thesis
    by (auto simp: decryptDM_def Let_def engine_def emit_def
        split: sum.splits prod.splits dest!: unpadResult_Return)
next
  case True
  show ?thesis
  proof (cases "NewPreKeySignalMessageFromBytes env (contentBytes child)")
    case (Inl e)
    with assms True show ?thesis by (simp add: decryptDM_def Let_def)
  next
    case (Inr m)
    obtain r1 s1 where r1:
      "DecryptMessageReturnKey env (SignalAddress env peer) m (store cli) = (r1, s1)"
      by (cases "DecryptMessageReturnKey env (SignalAddress env peer) m (store cli)")
    define cli1 where
      "cli1 = cli\<lparr>trace := trace cli @ [DecryptPreKeyCall (SignalAddress env peer)], store := s1\<rparr>"
    have e1: "engine (DecryptPreKeyCall (SignalAddress env peer))
        (DecryptMessageReturnKey env (SignalAddress env peer) m) cli = (r1, cli1)"
      unfolding cli1_def using r1 by (simp add: engine_def emit_def)
    have t1: "trace cli1 = trace cli @ [DecryptPreKeyCall (SignalAddress env peer)]"
      by (simp add: cli1_def)
    show ?thesis
    proof (cases "\<exists>e. r1 = Inl e \<and> errors_Is e ErrUntrustedIdentity")
      case False
      with assms True Inr e1 have "cli' = cli1"
        by (auto simp: decryptDM_def Let_def split: sum.splits dest!: unpadResult_Return)
      with t1 show ?thesis by simp
    next
      case True
      then obtain e where e: "r1 = Inl e" "errors_Is e ErrUntrustedIdentity" by blast
      obtain r2 cli2 where c2: "clearIdentityAndRetry env peer m cli1 = (r2, cli2)"
        by (cases "clearIdentityAndRetry env peer m cli1")
      from assms \<open>pk\<close> Inr e1 e c2 have "cli' = cli2"
        by (auto simp: decryptDM_def Let_def split: sum.splits dest!: unpadResult_Return)
      with clearIdentityAndRetry_trace [OF c2] t1 show ?thesis by auto
    qed
  qed
qed

lemma decryptGroupMsg_trace:
  assumes "decryptGroupMsg env child peer chat cli = Return (r, cli')"
  shows "\<exists>ys. trace cli' = trace cli @ ys \<and> started ys = []
      \<and> filter isUndecryptable (dispatched ys) = []
      \<and> filter isMessageEvent (dispatched ys) = []"
  using assms
  by (auto simp: decryptGroupMsg_def Let_def engine_def emit_def
      split: sum.splits prod.splits dest!: unpadResult_Return)

lemma routeChild_trace:
  assumes "routeChild env info child cli = Routed (Return (r, cli'))"
  shows "\<exists>ys. trace cli' = trace cli @ ys \<and> started ys = []
      \<and> filter isUndecryptable (dispatched ys) = []
      \<and> filter isMessageEvent (dispatched ys) = []"
  using assms
  by (auto simp: routeChild_def split: if_splits option.splits attr.splits
      dest: decryptDM_trace decryptGroupMsg_trace)

lemma handleSenderKeyDistributionMessage_trace:
  "\<exists>ys. trace (handleSenderKeyDistributionMessage env chat peer raw cli) = trace cli @ ys
      \<and> started ys = [] \<and> dispatched ys = []"
  by (auto simp: handleSenderKeyDistributionMessage_def Let_def engine_def emit_def logf_def
      split: sum.splits)

lemma handleDecryptedMessage_trace:
  "\<exists>ys evt. trace (handleDecryptedMessage env info msg cli) = trace cli @ ys
      \<and> dispatched ys = [MessageEvent evt]
      \<and> filter isRetryReceipt (started ys) = []
      \<and> filter isMessageReceipt (started ys) = []"
proof -
  define msg1 where "msg1 =
    (case DeviceSent_GetMessage (GetDeviceSentMessage (Some msg)) of
       Some inner \<Rightarrow> inner | None \<Rightarrow> msg)"
  define cli1 where "cli1 =
    (case GetSenderKeyDistributionMessage (Some msg1) of
       Some skdm \<Rightarrow>
         if \<not> IsGroup info
         then logf Warnf ''Got sender key distribution message in non-group chat from'' cli
         else handleSenderKeyDistributionMessage env (Chat info) (Sender info) skdm cli
     | None \<Rightarrow> cli)"
  define cli2 where "cli2 =
    (case GetProtocolMessage (Some msg1) of
       Some _ \<Rightarrow> go_run (handleProtocolMessage info msg1) cli1
     | None \<Rightarrow> cli1)"
  have 1: "\<exists>ys. trace cli1 = trace cli @ ys \<and> started ys = [] \<and> dispatched ys = []"
    using handleSenderKeyDistributionMessage_trace [of env "Chat info" "Sender info" _ cli]
    by (auto simp: cli1_def logf_def emit_def split: option.splits)
  have 2: "\<exists>ys. trace cli2 = trace cli1 @ ys \<and> dispatched ys = []
      \<and> filter isRetryReceipt (started ys) = [] \<and> filter isMessageReceipt (started ys) = []"
    by (auto simp: cli2_def go_run_def emit_def split: option.splits)
  have 3: "\<exists>evt. handleDecryptedMessage env info msg cli = dispatchEvent (MessageEvent evt) cli2"
  proof (cases "DeviceSent_GetMessage (GetDeviceSentMessage (Some msg))")
    case None
    show ?thesis
      unfolding handleDecryptedMessage_def cli2_def cli1_def msg1_def Let_def split_beta None
      by (simp only: option.case fst_conv snd_conv) (rule exI, rule refl)
  next
    case (Some inner)
    show ?thesis
      unfolding handleDecryptedMessage_def cli2_def cli1_def msg1_def Let_def split_beta Some
      by (simp only: option.case fst_conv snd_conv) (rule exI, rule refl)
  qed
  from 1 2 3 show ?thesis
    by (auto simp: dispatchEvent_def emit_def)
qed

lemma decryptChild_trace:
  assumes "decryptChild env info node child h cli = Return (r, cli')"
  shows "\<exists>ys. trace cli' = trace cli @ ys
      \<and> filter isMessageReceipt (started ys) = []
      \<and> (case r of
            None \<Rightarrow>
              filter isUndecryptable (dispatched ys) = [UndecryptableMessage info False]
              \<and> filter isRetryReceipt (started ys) = [sendRetryReceipt node False]
              \<and> filter isMessageEvent (dispatched ys) = []
          | Some h' \<Rightarrow>
              filter isUndecryptable (dispatched ys) = []
              \<and> filter isRetryReceipt (started ys) = []
              \<and> (h' \<longleftrightarrow> h \<or> filter isMessageEvent (dispatched ys) \<noteq> []))"
proof (cases "routeChild env info child cli")
  case Skipped
  with assms show ?thesis by (auto simp: decryptChild_def)
next
  case (Unhandled t)
  with assms show ?thesis by (auto simp: decryptChild_def logf_def emit_def)
next
  case (Routed x)
  show ?thesis
  proof (cases x)
    case Panic
    with assms Routed show ?thesis by (simp add: decryptChild_def)
  next
    case (Return p)
    obtain res cli1 where p: "p = (res, cli1)" by (cases p)
    from routeChild_trace [OF Routed [unfolded Return p]]
    obtain zs where zs: "trace cli1 = trace cli @ zs" "started zs = []"
      "filter isUndecryptable (dispatched zs) = []" "filter isMessageEvent (dispatched zs) = []"
      by blast
    show ?thesis
    proof (cases res)
      case (Inl err)
      with assms Routed Return p zs show ?thesis
        by (auto simp: decryptChild_def logf_def go_run_def dispatchEvent_def emit_def)
    next
      case (Inr decrypted)
      show ?thesis
      proof (cases "Unmarshal env decrypted")
        case (Inl err)
        with assms Routed Return p zs Inr show ?thesis
          by (auto simp: decryptChild_def logf_def emit_def)
      next
        case (Inr msg)
        from handleDecryptedMessage_trace [of env info msg cli1]
        obtain ws evt where ws: "trace (handleDecryptedMessage env info msg cli1) = trace cli1 @ ws"
          "dispatched ws = [MessageEvent evt]" "filter isRetryReceipt (started ws) = []"
          "filter isMessageReceipt (started ws) = []"
          by blast
        from assms Routed Return p \<open>res = Inr decrypted\<close> Inr
        have r: "r = Some True" and c: "cli' = handleDecryptedMessage env info msg cli1"
          by (auto simp: decryptChild_def)
        show ?thesis using zs ws unfolding r c
          by (intro exI [of _ "zs @ ws"]) simp
      qed
    qed
  qed
qed

lemma decryptChildren_trace:
  assumes "decryptChildren env info node cs h cli = Return (r, cli')"
  shows "\<exists>ys. trace cli' = trace cli @ ys
      \<and> filter isMessageReceipt (started ys) = []
      \<and> (case r of
            None \<Rightarrow>
              filter isUndecryptable (dispatched ys) = [UndecryptableMessage info False]
              \<and> filter isRetryReceipt (started ys) = [sendRetryReceipt node False]
          | Some h' \<Rightarrow>
              filter isUndecryptable (dispatched ys) = []
              \<and> filter isRetryReceipt (started ys) = []
              \<and> (h' \<longleftrightarrow> h \<or> filter isMessageEvent (dispatched ys) \<noteq> []))"
  using assms
proof (induction cs arbitrary: h cli)
  case Nil
  then show ?case by auto
next
  case (Cons c cs)
  from Cons.prems obtain r1 cli1 where
    step: "decryptChild env info node c h cli = Return (r1, cli1)"
    by (auto split: go.splits)
  from decryptChild_trace [OF step] obtain ys where ys: "trace cli1 = trace cli @ ys"
    "filter isMessageReceipt (started ys) = []"
    "case r1 of
            None \<Rightarrow>
              filter isUndecryptable (dispatched ys) = [UndecryptableMessage info False]
              \<and> filter isRetryReceipt (started ys) = [sendRetryReceipt node False]
              \<and> filter isMessageEvent (dispatched ys) = []
          | Some h' \<Rightarrow>
              filter isUndecryptable (dispatched ys) = []
              \<and> filter isRetryReceipt (started ys) = []
              \<and> (h' \<longleftrightarrow> h \<or> filter isMessageEvent (dispatched ys) \<noteq> [])"
    by blast
  show ?case
  proof (cases r1)
    case None
    with Cons.prems step have "r = None" "cli' = cli1" by auto
    with ys None show ?thesis by auto
  next
    case (Some h1)
    with Cons.prems step have rest: "decryptChildren env info node cs h1 cli1 = Return (r, cli')"
      by simp
    from Cons.IH [OF rest] obtain zs where zs: "trace cli' = trace cli1 @ zs"
      "filter isMessageReceipt (started zs) = []"
      "case r of
            None \<Rightarrow>
              filter isUndecryptable (dispatched zs) = [UndecryptableMessage info False]
              \<and> filter isRetryReceipt (started zs) = [sendRetryReceipt node False]
          | Some h' \<Rightarrow>
              filter isUndecryptable (dispatched zs) = []
              \<and> filter isRetryReceipt (started zs) = []
              \<and> (h' \<longleftrightarrow> h1 \<or> filter isMessageEvent (dispatched zs) \<noteq> [])"
      by blast
    show ?thesis using ys zs Some
      by (intro exI [of _ "ys @ zs"]) (auto split: option.splits)
  qed
qed

lemma decryptChildren_append:
  "decryptChildren env info node (xs @ ys) h cli =
     (case decryptChildren env info node xs h cli of
        Panic \<Rightarrow> Panic
      | Return (None, cli1) \<Rightarrow> Return (None, cli1)
      | Return (Some h1, cli1) \<Rightarrow> decryptChildren env info node ys h1 cli1)"
  by (induction xs arbitrary: h cli) (auto split: go.splits option.splits)

section \<open>Partial failure and the message receipt\<close>

lemma routeChild_Routed_enc:
  "routeChild env info c cli = Routed x \<Longrightarrow> Tag c = ''enc''"
  by (simp add: routeChild_def split: if_splits)

lemma decryptMessages_loop:
  assumes "length (GetChildrenByTag node ''unavailable'') \<noteq> length (GetChildren node)"
  shows "decryptMessages env info node cli =
     (case decryptChildren env info node (GetChildren node) False
             (logf Debugf ''Decrypting %d messages from %s'' (go_run (sendAck node) cli)) of
        Panic \<Rightarrow> Panic
      | Return (None, cli3) \<Rightarrow> Return cli3
      | Return (Some handled, cli3) \<Rightarrow>
          Return (if handled then go_run (sendMessageReceipt info) cli3 else cli3))"
  using assms by (simp add: decryptMessages_def Let_def)

lemma entry_trace:
  "trace (logf Debugf ''Decrypting %d messages from %s'' (go_run (sendAck node) cli)) =
     trace cli @ [Go (sendAck node), Log Debugf ''Decrypting %d messages from %s'']"
  by (simp add: logf_def go_run_def emit_def)

text \<open>
  C2: let the children of the node be \<open>pre @ c # post\<close>, let the loop over \<open>pre\<close> run
  through without a failure, and let the routed decryption of \<open>c\<close> (by \<open>decryptDM\<close> or
  \<open>decryptGroupMsg\<close>) fail. Then \<open>decryptMessages\<close> returns right after logging the
  failure, starting a retry receipt without the unavailable flag and dispatching one
  \<open>UndecryptableMessage\<close> event with \<open>IsUnavailable = False\<close>: in all it dispatches exactly
  one such event and starts exactly one retry receipt. Nothing of \<open>post\<close> is processed (the
  result does not depend on it), everything done for \<open>pre\<close> stays in the trace, and the
  message events dispatched are exactly those of \<open>pre\<close>.
\<close>

theorem C2_first_failure_aborts:
  assumes children: "GetChildren node = pre @ c # post"
      and earlier: "decryptChildren env info node pre False
           (logf Debugf ''Decrypting %d messages from %s'' (go_run (sendAck node) cli))
         = Return (Some h, cli1)"
      and fails: "routeChild env info c cli1 = Routed (Return (Inl err, cli2))"
  shows "\<exists>cli'. decryptMessages env info node cli = Return cli'
      \<and> trace cli' = trace cli2 @
           [Log Warnf ''Error decrypting message from %s: %v'',
            Go (sendRetryReceipt node False),
            Dispatch (UndecryptableMessage info False)]
      \<and> store cli' = store cli2
      \<and> (\<exists>ys. trace cli2 = trace cli1 @ ys \<and> filter isMessageEvent (dispatched ys) = [])
      \<and> filter isUndecryptable (dispatched (added cli cli')) = [UndecryptableMessage info False]
      \<and> filter isRetryReceipt (started (added cli cli')) = [sendRetryReceipt node False]
      \<and> filter isMessageReceipt (started (added cli cli')) = []
      \<and> filter isMessageEvent (dispatched (added cli cli'))
           = filter isMessageEvent (dispatched (added cli cli1))"
proof -
  define cli0 where
    "cli0 = logf Debugf ''Decrypting %d messages from %s'' (go_run (sendAck node) cli)"
  define cli' where
    "cli' = dispatchEvent (UndecryptableMessage info False)
              (go_run (sendRetryReceipt node False)
                (logf Warnf ''Error decrypting message from %s: %v'' cli2))"
  have "Tag c = ''enc''" using fails by (rule routeChild_Routed_enc)
  then have "\<not> (\<forall>x \<in> set (GetChildren node). Tag x = ''unavailable'')"
    using children by auto
  then have some: "length (GetChildrenByTag node ''unavailable'') \<noteq> length (GetChildren node)"
    by (simp add: all_unavailable_iff)
  have step: "decryptChild env info node c h cli1 = Return (None, cli')"
    using fails by (simp add: decryptChild_def cli'_def)
  have loop: "decryptChildren env info node (GetChildren node) False cli0 = Return (None, cli')"
    unfolding children decryptChildren_append
    using earlier step by (simp add: cli0_def)
  have res: "decryptMessages env info node cli = Return cli'"
    using decryptMessages_loop [OF some, of env info cli] loop by (simp add: cli0_def)
  have t': "trace cli' = trace cli2 @
           [Log Warnf ''Error decrypting message from %s: %v'',
            Go (sendRetryReceipt node False),
            Dispatch (UndecryptableMessage info False)]"
    and s': "store cli' = store cli2"
    by (simp_all add: cli'_def dispatchEvent_def go_run_def logf_def emit_def)
  have t0: "trace cli0 = trace cli @ [Go (sendAck node), Log Debugf ''Decrypting %d messages from %s'']"
    unfolding cli0_def by (rule entry_trace)
  from decryptChildren_trace [OF earlier] obtain ys where ys:
    "trace cli1 = trace cli0 @ ys" "filter isMessageReceipt (started ys) = []"
    "filter isUndecryptable (dispatched ys) = []" "filter isRetryReceipt (started ys) = []"
    unfolding cli0_def by auto
  from routeChild_trace [OF fails] obtain zs where zs:
    "trace cli2 = trace cli1 @ zs" "started zs = []"
    "filter isUndecryptable (dispatched zs) = []" "filter isMessageEvent (dispatched zs) = []"
    by blast
  have a1: "added cli cli1 = [Go (sendAck node), Log Debugf ''Decrypting %d messages from %s''] @ ys"
    using ys t0 by (simp add: added_def)
  have a': "added cli cli' =
      [Go (sendAck node), Log Debugf ''Decrypting %d messages from %s''] @ ys @ zs @
      [Log Warnf ''Error decrypting message from %s: %v'',
       Go (sendRetryReceipt node False), Dispatch (UndecryptableMessage info False)]"
    using ys zs t0 t' by (simp add: added_def)
  show ?thesis
    using res t' s' ys zs
    by (intro exI [of _ cli']) (simp add: a1 a')
qed

text \<open>
  C10: whenever \<open>decryptMessages\<close> returns, it has started a message receipt (and then
  exactly one) if and only if not all children were unavailable and the loop over the
  children ran to its end with \<open>handled = True\<close>; \<open>handled\<close> is true at the end exactly
  when the loop dispatched at least one message event, that is, handled at least one
  element. When the loop is left by the return after a decryption failure, no message
  receipt is started, whatever was handled before.
\<close>

theorem C10_receipt_only_on_clean_completion:
  fixes env :: "('s, 'm) env"
  assumes ret: "decryptMessages env info node cli = Return cli'"
  defines "cli0 \<equiv> logf Debugf ''Decrypting %d messages from %s'' (go_run (sendAck node) cli)"
  shows "filter isMessageReceipt (started (added cli cli')) =
           (if length (GetChildrenByTag node ''unavailable'') \<noteq> length (GetChildren node)
               \<and> (\<exists>c. decryptChildren env info node (GetChildren node) False cli0
                         = Return (Some True, c))
            then [sendMessageReceipt info] else [])
       \<and> (\<forall>h c. decryptChildren env info node (GetChildren node) False cli0 = Return (Some h, c)
             \<longrightarrow> (h \<longleftrightarrow> filter isMessageEvent (dispatched (added cli0 c)) \<noteq> []))
       \<and> (\<forall>c. decryptChildren env info node (GetChildren node) False cli0 = Return (None, c)
             \<longrightarrow> filter isMessageReceipt (started (added cli cli')) = [])"
proof -
  have t0: "trace cli0 = trace cli @ [Go (sendAck node), Log Debugf ''Decrypting %d messages from %s'']"
    unfolding cli0_def by (rule entry_trace)
  have handled: "h \<longleftrightarrow> filter isMessageEvent (dispatched (added cli0 c)) \<noteq> []"
    if "decryptChildren env info node (GetChildren node) False cli0 = Return (Some h, c)" for h c
    using decryptChildren_trace [OF that] by (auto simp: added_def)
  have first: "filter isMessageReceipt (started (added cli cli')) =
           (if length (GetChildrenByTag node ''unavailable'') \<noteq> length (GetChildren node)
               \<and> (\<exists>c. decryptChildren env info node (GetChildren node) False cli0
                         = Return (Some True, c))
            then [sendMessageReceipt info] else [])"
  proof (cases "length (GetChildrenByTag node ''unavailable'') = length (GetChildren node)")
    case True
    from decryptMessages_unavailable [OF True, of env info cli] ret
    show ?thesis using True by (auto simp: added_def)
  next
    case False
    note dm = decryptMessages_loop [OF False, of env info cli, folded cli0_def]
    show ?thesis
    proof (cases "decryptChildren env info node (GetChildren node) False cli0")
      case Panic
      with dm ret show ?thesis by simp
    next
      case (Return p)
      obtain r c where p: "p = (r, c)" by (cases p)
      from decryptChildren_trace [OF Return [unfolded p]] obtain ys where ys:
        "trace c = trace cli0 @ ys" "filter isMessageReceipt (started ys) = []"
        by blast
      show ?thesis
      proof (cases r)
        case None
        with dm ret Return p have "cli' = c" by simp
        with ys t0 None Return p False show ?thesis by (simp add: added_def)
      next
        case (Some h)
        with dm ret Return p have "cli' = (if h then go_run (sendMessageReceipt info) c else c)"
          by simp
        with ys t0 Some Return p False show ?thesis
          by (cases h) (simp_all add: added_def go_run_def emit_def)
      qed
    qed
  qed
  show ?thesis using first handled by auto
qed

lemma sample_unpad: "unpadMessage [0x41, 0x42, 0x01] = Return (Inr [0x41, 0x42])"
  by (simp add: unpadMessage_def isValidPadding_def lastIndex_def sliceTo_def
      Repeat_def HasSuffix_def checkPadding_def Let_def)

lemma sample_good_route:
  "routeChild sampleEnv sampleInfo sampleGoodChild cli =
     Routed (Return (Inr [0x41, 0x42], cli\<lparr>trace := trace cli @ [DecryptCall ''123'']\<rparr>))"
  by (simp add: routeChild_def sampleGoodChild_def decryptDM_def contentBytes_def sampleEnv_def
      sampleInfo_def sampleJID_def Let_def engine_def emit_def unpadResult_def sample_unpad)

lemma sample_good_child:
  "\<exists>c. decryptChild sampleEnv sampleInfo node sampleGoodChild h cli = Return (Some True, c)"
proof -
  have "Unmarshal sampleEnv [0x41, 0x42] =
      Inr (ProtoMessage (Some ''hi'') None None None None None)"
    by (simp add: sampleEnv_def)
  then show ?thesis
    by (simp add: decryptChild_def sample_good_route)
qed

lemma sample_bad_route:
  "routeChild sampleEnv sampleInfo sampleBadChild cli =
     Routed (Return (Inl (Wrapf ''failed to parse normal message'' (EngineError ''empty'')), cli))"
  by (simp add: routeChild_def sampleBadChild_def decryptDM_def contentBytes_def sampleEnv_def
      Let_def)

lemma sample_partial_children:
  "GetChildren samplePartialNode = [sampleGoodChild] @ sampleBadChild # [sampleGoodChild]"
  by (simp add: samplePartialNode_def GetChildren_def)

lemma sample_partial_some:
  "length (GetChildrenByTag samplePartialNode ''unavailable'')
     \<noteq> length (GetChildren samplePartialNode)"
  by (simp add: GetChildrenByTag_def samplePartialNode_def GetChildren_def
      sampleGoodChild_def sampleBadChild_def)

lemma sample_clean_some:
  "length (GetChildrenByTag sampleCleanNode ''unavailable'')
     \<noteq> length (GetChildren sampleCleanNode)"
  by (simp add: GetChildrenByTag_def sampleCleanNode_def GetChildren_def sampleGoodChild_def)

theorem C2_first_failure_aborts_witness:
  "\<exists>h cli1 err cli2.
     GetChildren samplePartialNode = [sampleGoodChild] @ sampleBadChild # [sampleGoodChild]
     \<and> decryptChildren sampleEnv sampleInfo samplePartialNode [sampleGoodChild] False
          (logf Debugf ''Decrypting %d messages from %s''
             (go_run (sendAck samplePartialNode) (sampleClient False)))
        = Return (Some h, cli1)
     \<and> routeChild sampleEnv sampleInfo sampleBadChild cli1 = Routed (Return (Inl err, cli2))
     \<and> (\<exists>cli'. decryptMessages sampleEnv sampleInfo samplePartialNode (sampleClient False)
                  = Return cli'
           \<and> filter isUndecryptable (dispatched (added (sampleClient False) cli'))
                = [UndecryptableMessage sampleInfo False]
           \<and> filter isRetryReceipt (started (added (sampleClient False) cli'))
                = [sendRetryReceipt samplePartialNode False]
           \<and> filter isMessageReceipt (started (added (sampleClient False) cli')) = [])"
proof -
  define cli0 where "cli0 = logf Debugf ''Decrypting %d messages from %s''
             (go_run (sendAck samplePartialNode) (sampleClient False))"
  obtain cli1 where g:
    "decryptChild sampleEnv sampleInfo samplePartialNode sampleGoodChild False cli0
       = Return (Some True, cli1)"
    using sample_good_child by blast
  then have earlier:
    "decryptChildren sampleEnv sampleInfo samplePartialNode [sampleGoodChild] False
          (logf Debugf ''Decrypting %d messages from %s''
             (go_run (sendAck samplePartialNode) (sampleClient False)))
        = Return (Some True, cli1)"
    by (simp add: cli0_def)
  note fails = sample_bad_route [of cli1]
  from C2_first_failure_aborts [OF sample_partial_children earlier fails]
    sample_partial_children earlier fails
  show ?thesis by blast
qed

theorem C10_receipt_only_on_clean_completion_witness:
  "(\<exists>cli'. decryptMessages sampleEnv sampleInfo sampleCleanNode (sampleClient False) = Return cli'
      \<and> filter isMessageReceipt (started (added (sampleClient False) cli'))
           = [sendMessageReceipt sampleInfo])
   \<and> (\<exists>cli'. decryptMessages sampleEnv sampleInfo samplePartialNode (sampleClient False) = Return cli'
      \<and> filter isMessageReceipt (started (added (sampleClient False) cli')) = [])"
proof -
  define c0 where "c0 = logf Debugf ''Decrypting %d messages from %s''
             (go_run (sendAck sampleCleanNode) (sampleClient False))"
  define p0 where "p0 = logf Debugf ''Decrypting %d messages from %s''
             (go_run (sendAck samplePartialNode) (sampleClient False))"
  obtain c1 where c1:
    "decryptChild sampleEnv sampleInfo sampleCleanNode sampleGoodChild False c0
       = Return (Some True, c1)"
    using sample_good_child by blast
  then have cloop:
    "decryptChildren sampleEnv sampleInfo sampleCleanNode (GetChildren sampleCleanNode) False c0
       = Return (Some True, c1)"
    by (simp add: sampleCleanNode_def GetChildren_def)
  have cret: "decryptMessages sampleEnv sampleInfo sampleCleanNode (sampleClient False)
       = Return (go_run (sendMessageReceipt sampleInfo) c1)"
    using decryptMessages_loop [OF sample_clean_some, of sampleEnv sampleInfo "sampleClient False"]
      cloop by (simp add: c0_def)
  obtain p1 where p1:
    "decryptChild sampleEnv sampleInfo samplePartialNode sampleGoodChild False p0
       = Return (Some True, p1)"
    using sample_good_child by blast
  obtain p2 where p2:
    "decryptChild sampleEnv sampleInfo samplePartialNode sampleBadChild True p1
       = Return (None, p2)"
    by (simp add: decryptChild_def sample_bad_route)
  have ploop:
    "decryptChildren sampleEnv sampleInfo samplePartialNode (GetChildren samplePartialNode)
       False p0 = Return (None, p2)"
    using p1 p2 by (simp add: sample_partial_children)
  have pret: "decryptMessages sampleEnv sampleInfo samplePartialNode (sampleClient False)
       = Return p2"
    using decryptMessages_loop [OF sample_partial_some, of sampleEnv sampleInfo "sampleClient False"]
      ploop by (simp add: p0_def)
  have a: "filter isMessageReceipt (started (added (sampleClient False)
              (go_run (sendMessageReceipt sampleInfo) c1))) = [sendMessageReceipt sampleInfo]"
    using C10_receipt_only_on_clean_completion [OF cret] sample_clean_some cloop
    by (auto simp: c0_def)
  have b: "filter isMessageReceipt (started (added (sampleClient False) p2)) = []"
    using C10_receipt_only_on_clean_completion [OF pret] ploop
    by (auto simp: p0_def)
  from cret a pret b show ?thesis by blast
qed

end
